theory Spec2Isabelle
  imports Complex_Main "HOL-Library.AList"
begin

section \<open>Data model\<close>

text \<open>
  JSON values as Python's \<open>json\<close> module presents them: \<open>None\<close>, \<open>bool\<close>, \<open>int\<close>,
  \<open>float\<close> (kept as the number that encodes the 64 bits of the double; no arithmetic is
  done on it), \<open>str\<close>,
  \<open>list\<close> and \<open>dict\<close>. A \<open>dict\<close> is an association list in insertion order; reading uses
  \<open>map_of\<close> and writing uses \<open>AList.update\<close>, which overwrites in place or appends, as a
  Python \<open>dict\<close> does. Strings are lists of 8-bit characters, read as the code points
  below 256.
\<close>

datatype json =
    JNull
  | JBool bool
  | JInt int
  | JFloat nat
  | JString string
  | JArray "json list"
  | JObject "(string \<times> json) list"

text \<open>The exceptions of the Python code that the handlers can meet.\<close>

datatype py_exc =
    JSONDecodeError
  | KeyError string
  | TypeError
  | AttributeError
  | StopIteration
  | UnboundLocalError string
  | UnicodeDecodeError
  | NameError string
  | TransportError

text \<open>
  \<open>HTTPException(status_code, detail)\<close>. The detail is either a message the handler
  formats itself or \<open>str(e)\<close> of a caught exception. \<open>Unhandled\<close> is an exception that
  leaves a handler that has no \<open>try\<close> around it.
\<close>

datatype detail = Message string | Str_of py_exc

datatype failure = HTTPException nat detail | Unhandled py_exc

section \<open>Strings and the denylist patterns\<close>

text \<open>
  \<open>str.isspace\<close> on the code points below 256; \<open>str.strip()\<close> and the regular
  expression class \<open>\s\<close> both use it.
\<close>

definition isspace :: "char \<Rightarrow> bool" where
  "isspace c = ((of_char c :: nat) \<in> {9, 10, 11, 12, 13, 28, 29, 30, 31, 32, 133, 160})"

definition strip :: "string \<Rightarrow> string" where
  "strip s = rev (dropWhile isspace (rev (dropWhile isspace s)))"

definition rstrip_char :: "char \<Rightarrow> string \<Rightarrow> string" where
  "rstrip_char ch s = rev (dropWhile (\<lambda>c. c = ch) (rev s))"

definition lstrip_char :: "char \<Rightarrow> string \<Rightarrow> string" where
  "lstrip_char ch s = dropWhile (\<lambda>c. c = ch) s"

text \<open>\<open>s.split(sep)\<close> for a separator of one character.\<close>

fun split :: "char \<Rightarrow> string \<Rightarrow> string list" where
  "split sep [] = [[]]"
| "split sep (c # cs) =
     (if c = sep then [] # split sep cs
      else (case split sep cs of [] \<Rightarrow> [[c]] | w # ws \<Rightarrow> (c # w) # ws))"

definition startswith :: "string \<Rightarrow> string \<Rightarrow> bool" where
  "startswith s p = (take (length p) s = p)"

text \<open>
  Case folding under \<open>re.IGNORECASE\<close>: below code point 256 only the ASCII letters fold
  onto the letters of the patterns.
\<close>

definition lower :: "char \<Rightarrow> char" where
  "lower c = (let n = (of_char c :: nat) in if 65 \<le> n \<and> n \<le> 90 then char_of (n + 32) else c)"

text \<open>
  The regular expressions of \<open>dangerous_patterns\<close> are sequences of literal characters
  and \<open>\s*\<close>. \<open>match_at\<close> is \<open>re.match\<close> at the start of the string with
  \<open>IGNORECASE\<close>: the length of the match, the star greedy with backtracking.
\<close>

datatype atom = Lit char | SpaceStar

definition first_some :: "('a \<Rightarrow> 'b option) \<Rightarrow> 'a list \<Rightarrow> 'b option" where
  "first_some f xs = (case List.map_filter f xs of [] \<Rightarrow> None | y # _ \<Rightarrow> Some y)"

fun match_at :: "atom list \<Rightarrow> string \<Rightarrow> nat option" where
  "match_at [] s = Some 0"
| "match_at (Lit p # ps) s =
     (case s of [] \<Rightarrow> None
      | c # cs \<Rightarrow> if lower c = lower p then map_option Suc (match_at ps cs) else None)"
| "match_at (SpaceStar # ps) s =
     first_some (\<lambda>k. map_option (\<lambda>n. k + n) (match_at ps (drop k s)))
       (rev [0 ..< Suc (length (takeWhile isspace s))])"

text \<open>
  \<open>re.sub(pattern, repl, s, flags=re.IGNORECASE)\<close>: leftmost matches, left to right,
  not overlapping; an empty match is replaced and the scan moves on by one character.
\<close>

fun re_sub :: "atom list \<Rightarrow> string \<Rightarrow> string \<Rightarrow> string" where
  "re_sub pat repl [] = (case match_at pat [] of None \<Rightarrow> [] | Some _ \<Rightarrow> repl)"
| "re_sub pat repl (c # cs) =
     (case match_at pat (c # cs) of
        None \<Rightarrow> c # re_sub pat repl cs
      | Some 0 \<Rightarrow> repl @ c # re_sub pat repl cs
      | Some (Suc n) \<Rightarrow> repl @ re_sub pat repl (drop n cs))"

definition literal :: "string \<Rightarrow> atom list" where
  "literal s = map Lit s"

text \<open>
  \<open>SecurityConfig.dangerous_patterns\<close>, in the order of the source:
  \<open>eval\s*\(\<close>, \<open>exec\s*\(\<close>, \<open>__import__\<close>, \<open>subprocess\<close>, \<open>os\.system\<close>,
  \<open>shell=True\<close>.
\<close>

definition dangerous_patterns_init :: "atom list list" where
  "dangerous_patterns_init =
     [literal ''eval'' @ [SpaceStar, Lit CHR ''(''],
      literal ''exec'' @ [SpaceStar, Lit CHR ''(''],
      literal ''__import__'',
      literal ''subprocess'',
      literal ''os.system'',
      literal ''shell=True'']"

section \<open>Policy state\<close>

text \<open>One entry of \<open>SecurityConfig.rate_limits\<close>.\<close>

record rate_limit =
  calls_per_minute :: int
  last_reset :: real
  call_count :: int

text \<open>
  \<open>SecurityConfig\<close>. \<open>rate_limits\<close> is a \<open>defaultdict\<close>: a missing key is created on
  first access by \<open>default_rate_limit\<close>, whose \<open>last_reset\<close> is the clock reading taken
  at that moment.
\<close>

record SecurityConfig =
  blocked_tools :: "string set"
  allowed_tools :: "string set"
  rate_limits :: "string \<rightharpoonup> rate_limit"
  input_sanitization_enabled :: bool
  dangerous_patterns :: "atom list list"

definition default_rate_limit :: "real \<Rightarrow> rate_limit" where
  "default_rate_limit t = \<lparr>calls_per_minute = 60, last_reset = t, call_count = 0\<rparr>"

definition init_security_config :: SecurityConfig where
  "init_security_config =
     \<lparr>blocked_tools = {}, allowed_tools = {}, rate_limits = Map.empty,
      input_sanitization_enabled = True, dangerous_patterns = dangerous_patterns_init\<rparr>"

section \<open>Security gate: allow/block decision\<close>

definition is_tool_allowed :: "SecurityConfig \<Rightarrow> string \<Rightarrow> bool" where
  "is_tool_allowed cfg tool_name =
     (if tool_name \<in> blocked_tools cfg then False
      else if allowed_tools cfg \<noteq> {} \<and> tool_name \<notin> allowed_tools cfg then False
      else True)"

text \<open>The administrative toggle (\<open>/api/toggle-tool\<close>).\<close>

definition toggle_tool :: "string \<Rightarrow> bool \<Rightarrow> SecurityConfig \<Rightarrow> SecurityConfig" where
  "toggle_tool tool_name enabled cfg =
     (if enabled
      then cfg\<lparr>blocked_tools := blocked_tools cfg - {tool_name},
               allowed_tools := insert tool_name (allowed_tools cfg)\<rparr>
      else cfg\<lparr>allowed_tools := allowed_tools cfg - {tool_name},
               blocked_tools := insert tool_name (blocked_tools cfg)\<rparr>)"

text \<open>A sequence of administrative toggles, applied in order.\<close>

fun toggles :: "(string \<times> bool) list \<Rightarrow> SecurityConfig \<Rightarrow> SecurityConfig" where
  "toggles [] cfg = cfg"
| "toggles ((t, e) # ops) cfg = toggles ops (toggle_tool t e cfg)"

section \<open>Security gate: rate limit\<close>

text \<open>
  A clock reading (\<open>time.time()\<close>) is a double, kept as the real number it denotes. The
  difference \<open>now - tool_limit['last_reset']\<close> is the subtraction of doubles, which
  rounds; it is the parameter \<open>sub\<close> of the check.

  \<open>rate_limits_item\<close> is \<open>rate_limits[tool_name]\<close> on the \<open>defaultdict\<close>: the entry of
  the tool, or the default entry created at that moment, whose \<open>last_reset\<close> is the clock
  reading \<open>created\<close> that the factory takes.
\<close>

definition rate_limits_item :: "real \<Rightarrow> SecurityConfig \<Rightarrow> string \<Rightarrow> rate_limit" where
  "rate_limits_item created cfg tool_name =
     (case rate_limits cfg tool_name of
        None \<Rightarrow> default_rate_limit created
      | Some w \<Rightarrow> w)"

text \<open>
  \<open>check_rate_limit\<close> reads the clock once (\<open>now\<close>) and then looks the tool up. The result
  is the returned flag and the configuration with the mutated entry.
\<close>

definition check_rate_limit ::
  "(real \<Rightarrow> real \<Rightarrow> real) \<Rightarrow> real \<Rightarrow> real \<Rightarrow> string \<Rightarrow> SecurityConfig
     \<Rightarrow> bool \<times> SecurityConfig" where
  "check_rate_limit sub now created tool_name cfg =
     (let tool_limit = rate_limits_item created cfg tool_name;
          tool_limit = (if sub now (last_reset tool_limit) \<ge> 60
                        then tool_limit\<lparr>call_count := 0, last_reset := now\<rparr>
                        else tool_limit)
      in if call_count tool_limit \<ge> calls_per_minute tool_limit
         then (False, cfg\<lparr>rate_limits := (rate_limits cfg)(tool_name \<mapsto> tool_limit)\<rparr>)
         else (True, cfg\<lparr>rate_limits := (rate_limits cfg)
                 (tool_name \<mapsto> tool_limit\<lparr>call_count := call_count tool_limit + 1\<rparr>)\<rparr>))"

text \<open>Successive checks for one tool, each with its own clock readings.\<close>

fun check_rate_limits ::
  "(real \<Rightarrow> real \<Rightarrow> real) \<Rightarrow> (real \<times> real) list \<Rightarrow> string \<Rightarrow> SecurityConfig
     \<Rightarrow> bool list \<times> SecurityConfig" where
  "check_rate_limits sub [] tool_name cfg = ([], cfg)"
| "check_rate_limits sub ((now, created) # ts) tool_name cfg =
     (let (ok, cfg') = check_rate_limit sub now created tool_name cfg;
          (oks, cfg'') = check_rate_limits sub ts tool_name cfg'
      in (ok # oks, cfg''))"

text \<open>The administrative rate-limit update (\<open>/api/update-rate-limit\<close>).\<close>

definition update_rate_limit ::
  "real \<Rightarrow> string \<Rightarrow> int option \<Rightarrow> SecurityConfig \<Rightarrow> bool \<times> SecurityConfig" where
  "update_rate_limit created tool_name rate_limit cfg =
     (let new_limit = (case rate_limit of None \<Rightarrow> 60 | Some n \<Rightarrow> if n = 0 then 60 else n)
      in if tool_name \<noteq> [] \<and> new_limit > 0
         then (let tool_limit = rate_limits_item created cfg tool_name
               in (True, cfg\<lparr>rate_limits := (rate_limits cfg)
                      (tool_name \<mapsto> tool_limit\<lparr>calls_per_minute := new_limit\<rparr>)\<rparr>))
         else (False, cfg))"

section \<open>Security gate: argument sanitization\<close>

text \<open>
  \<open>sanitize_input\<close> builds a new \<open>dict\<close>, key by key. A \<open>str\<close> value goes through every
  pattern in order; a \<open>dict\<close> value is sanitized recursively; of a \<open>list\<close> value only
  the items that are \<open>dict\<close>s are sanitized, every other item is kept as it is.
\<close>

fun sanitize_items ::
    "atom list list \<Rightarrow> (string \<times> json) list \<Rightarrow> (string \<times> json) list \<Rightarrow> (string \<times> json) list"
  and sanitize_value :: "atom list list \<Rightarrow> json \<Rightarrow> json"
  and sanitize_list :: "atom list list \<Rightarrow> json list \<Rightarrow> json list" where
  "sanitize_items pats [] sanitized = sanitized"
| "sanitize_items pats ((key, value) # rest) sanitized =
     sanitize_items pats rest (AList.update key (sanitize_value pats value) sanitized)"
| "sanitize_value pats (JString s) =
     JString (fold (\<lambda>pattern v. re_sub pattern ''[BLOCKED]'' v) pats s)"
| "sanitize_value pats (JObject kvs) = JObject (sanitize_items pats kvs [])"
| "sanitize_value pats (JArray xs) = JArray (sanitize_list pats xs)"
| "sanitize_value pats v = v"
| "sanitize_list pats [] = []"
| "sanitize_list pats (item # items) =
     (case item of JObject kvs \<Rightarrow> JObject (sanitize_items pats kvs []) | _ \<Rightarrow> item)
       # sanitize_list pats items"

definition sanitize_input ::
  "SecurityConfig \<Rightarrow> (string \<times> json) list \<Rightarrow> (string \<times> json) list" where
  "sanitize_input cfg args = sanitize_items (dangerous_patterns cfg) args []"

section \<open>Requests, responses and the external collaborators\<close>

text \<open>
  The inbound request as the framework presents it: \<open>await request.body()\<close> is the raw
  body, \<open>await request.json()\<close> its parse (\<open>None\<close> when that raises).
\<close>

record http_request =
  req_method :: string
  req_headers :: "(string \<times> string) list"
  req_body :: string
  req_json :: "json option"

record upstream_request =
  up_method :: string
  up_url :: string
  up_content :: string
  up_headers :: "(string \<times> string) list"

record http_response =
  content :: string
  status_code :: nat
  headers :: "(string \<times> string) list"

text \<open>
  What the handlers call and this repository does not define: \<open>json.loads\<close> and
  \<open>json.dumps\<close>, \<open>bytes.decode\<close> and \<open>str.encode\<close>, the injection detector
  (\<open>sanitizer_instance.check(text)['is_injection']\<close>), the upstream server behind
  \<open>httpx\<close>, and the subtraction of two doubles. \<open>None\<close> is a call that raises.
\<close>

record env =
  json_loads :: "string \<Rightarrow> json option"
  json_dumps :: "json \<Rightarrow> string"
  bytes_decode :: "string \<Rightarrow> string option"
  str_encode :: "string \<Rightarrow> string"
  sanitizer_check :: "string \<Rightarrow> bool option"
  client_request :: "upstream_request \<Rightarrow> http_response option"
  float_sub :: "real \<Rightarrow> real \<Rightarrow> real"

text \<open>
  \<open>MCPProxyMiddleware\<close>: \<open>session\<close> is whether the proxy is connected to the target
  server; \<open>tool_usage_counts\<close> is a \<open>defaultdict(int)\<close>.
\<close>

record MCPProxyMiddleware =
  target_server_url :: string
  security_config :: SecurityConfig
  session :: bool
  tool_usage_counts :: "string \<rightharpoonup> int"

section \<open>Forwarding client\<close>

definition target_url :: "MCPProxyMiddleware \<Rightarrow> string option \<Rightarrow> string" where
  "target_url px path =
     (let base_url = rstrip_char CHR ''/'' (target_server_url px)
      in case path of
           None \<Rightarrow> base_url
         | Some p \<Rightarrow> if p \<noteq> [] then base_url @ ''/'' @ lstrip_char CHR ''/'' p else base_url)"

definition forwarded :: "MCPProxyMiddleware \<Rightarrow> string option \<Rightarrow> http_request \<Rightarrow> upstream_request" where
  "forwarded px path request =
     \<lparr>up_method = req_method request, up_url = target_url px path,
      up_content = req_body request, up_headers = req_headers request\<rparr>"

definition pop_location :: "(string \<times> string) list \<Rightarrow> (string \<times> string) list" where
  "pop_location hs = AList.delete ''Location'' (AList.delete ''location'' hs)"

text \<open>
  A handler returns its response or the failure it raises, together with the list of
  calls it made to the upstream server.
\<close>

definition handle_mcp_request ::
  "env \<Rightarrow> MCPProxyMiddleware \<Rightarrow> string option \<Rightarrow> http_request
     \<Rightarrow> (failure + http_response) \<times> upstream_request list" where
  "handle_mcp_request ev px path request =
     (let up = forwarded px path request
      in case client_request ev up of
           None \<Rightarrow> (Inl (HTTPException 500 (Str_of TransportError)), [up])
         | Some response \<Rightarrow>
             (Inr \<lparr>content = content response, status_code = status_code response,
                   headers = pop_location (headers response)\<rparr>, [up]))"

section \<open>Envelope codec and the tools/list path\<close>

definition crlf :: string where
  "crlf = [CHR 0x0D, CHR 0x0A]"

text \<open>Lines 268 to 274 of the source: from the response bytes to the JSON-RPC object.\<close>

definition decode_frame :: "env \<Rightarrow> string \<Rightarrow> py_exc + json" where
  "decode_frame ev bytes =
     (case bytes_decode ev bytes of
        None \<Rightarrow> Inl UnicodeDecodeError
      | Some response_string \<Rightarrow>
          (let lines = split CHR 0x0A (strip response_string)
           in case find (\<lambda>line. startswith line ''data: '') lines of
                None \<Rightarrow> Inl StopIteration
              | Some json_line \<Rightarrow>
                  (case json_loads ev (drop 6 json_line) of
                     None \<Rightarrow> Inl JSONDecodeError
                   | Some data \<Rightarrow> Inr data)))"

text \<open>Lines 280 and 281: the canonical frame.\<close>

definition encode_frame :: "env \<Rightarrow> json \<Rightarrow> string" where
  "encode_frame ev data =
     str_encode ev (''event: message\<newline>data: '' @ json_dumps ev data @ crlf @ crlf)"

text \<open>\<open>obj[key]\<close> with a string key, \<open>obj.get(key)\<close> and \<open>for x in obj\<close> on a JSON value.\<close>

fun subscript :: "json \<Rightarrow> string \<Rightarrow> py_exc + json" where
  "subscript (JObject kvs) k = (case map_of kvs k of None \<Rightarrow> Inl (KeyError k) | Some v \<Rightarrow> Inr v)"
| "subscript _ k = Inl TypeError"

fun py_get :: "json \<Rightarrow> string \<Rightarrow> json \<Rightarrow> py_exc + json" where
  "py_get (JObject kvs) k dflt = (case map_of kvs k of None \<Rightarrow> Inr dflt | Some v \<Rightarrow> Inr v)"
| "py_get _ k dflt = Inl AttributeError"

fun iterate :: "json \<Rightarrow> py_exc + json list" where
  "iterate (JArray xs) = Inr xs"
| "iterate (JObject kvs) = Inr (map (\<lambda>(k, v). JString k) kvs)"
| "iterate (JString s) = Inr (map (\<lambda>c. JString [c]) s)"
| "iterate _ = Inl TypeError"

text \<open>\<open>name not in blocked_tools\<close>: a list or a dict is unhashable.\<close>

fun not_in_blocked :: "string set \<Rightarrow> json \<Rightarrow> py_exc + bool" where
  "not_in_blocked blocked (JString n) = Inr (n \<notin> blocked)"
| "not_in_blocked blocked (JArray xs) = Inl TypeError"
| "not_in_blocked blocked (JObject kvs) = Inl TypeError"
| "not_in_blocked blocked _ = Inr True"

fun filter_tools :: "string set \<Rightarrow> json list \<Rightarrow> py_exc + json list" where
  "filter_tools blocked [] = Inr []"
| "filter_tools blocked (tool # tools) =
     (case subscript tool ''name'' of
        Inl e \<Rightarrow> Inl e
      | Inr name \<Rightarrow>
          (case not_in_blocked blocked name of
             Inl e \<Rightarrow> Inl e
           | Inr keep \<Rightarrow>
               (case filter_tools blocked tools of
                  Inl e \<Rightarrow> Inl e
                | Inr kept \<Rightarrow> Inr (if keep then tool # kept else kept))))"

text \<open>Line 276: \<open>data['result']['tools'] = [tool for tool in ... if ...]\<close>.\<close>

definition filter_listed_tools :: "SecurityConfig \<Rightarrow> json \<Rightarrow> py_exc + json" where
  "filter_listed_tools cfg data =
     (case subscript data ''result'' of
        Inl e \<Rightarrow> Inl e
      | Inr result \<Rightarrow>
          (case subscript result ''tools'' of
             Inl e \<Rightarrow> Inl e
           | Inr tools \<Rightarrow>
               (case iterate tools of
                  Inl e \<Rightarrow> Inl e
                | Inr items \<Rightarrow>
                    (case filter_tools (blocked_tools cfg) items of
                       Inl e \<Rightarrow> Inl e
                     | Inr kept \<Rightarrow>
                         (case (data, result) of
                            (JObject d, JObject r) \<Rightarrow>
                              Inr (JObject (AList.update ''result''
                                     (JObject (AList.update ''tools'' (JArray kept) r)) d))
                          | _ \<Rightarrow> Inl TypeError)))))"

definition updated_handle_tools_list ::
  "env \<Rightarrow> MCPProxyMiddleware \<Rightarrow> string option \<Rightarrow> http_request
     \<Rightarrow> (failure + http_response) \<times> upstream_request list" where
  "updated_handle_tools_list ev px path request =
     (let up = forwarded px path request
      in case client_request ev up of
           None \<Rightarrow> (Inl (HTTPException 500 (Str_of TransportError)), [up])
         | Some response \<Rightarrow>
             (case decode_frame ev (content response) of
                Inl e \<Rightarrow> (Inl (HTTPException 500 (Str_of e)), [up])
              | Inr data \<Rightarrow>
                  (case filter_listed_tools (security_config px) data of
                     Inl e \<Rightarrow> (Inl (HTTPException 500 (Str_of e)), [up])
                   | Inr data' \<Rightarrow>
                       (Inr \<lparr>content = encode_frame ev data',
                             status_code = status_code response,
                             headers = pop_location (headers response)\<rparr>, [up]))))"

section \<open>The tools/call path\<close>

definition internal :: "py_exc \<Rightarrow> failure + http_response" where
  "internal e = Inl (HTTPException 500 (Str_of e))"

definition quoted :: "string \<Rightarrow> string" where
  "quoted s = [CHR 0x27] @ s @ [CHR 0x27]"

text \<open>The payload that replaces a filtered tool result.\<close>

definition safe_payload :: "json \<Rightarrow> string \<Rightarrow> json" where
  "safe_payload ident msg =
     JObject [(''jsonrpc'', JString ''2.0''),
              (''id'', ident),
              (''result'', JObject [(''content'', JArray [JObject [(''type'', JString ''text''),
                                                                  (''text'', JString msg)]]),
                                   (''isError'', JBool True)])]"

definition safe_response :: "env \<Rightarrow> http_response \<Rightarrow> json \<Rightarrow> string \<Rightarrow> http_response" where
  "safe_response ev response ident msg =
     \<lparr>content = ''event: message\<newline>data: '' @ str_encode ev (json_dumps ev (safe_payload ident msg))
                 @ crlf @ crlf,
      status_code = status_code response,
      headers = pop_location (headers response)\<rparr>"

text \<open>Reading a local variable: \<open>None\<close> is a variable that no statement has assigned yet.\<close>

definition read_local :: "string \<Rightarrow> json option \<Rightarrow> py_exc + json" where
  "read_local name var = (case var of None \<Rightarrow> Inl (UnboundLocalError name) | Some v \<Rightarrow> Inr v)"

text \<open>
  Lines 354 to 417, the branch taken when the detector reports an injection.
  \<open>response_data\<close> is assigned only where the response starts with the expected prefix.
\<close>

definition blocked_response :: "env \<Rightarrow> http_response \<Rightarrow> string \<Rightarrow> failure + http_response" where
  "blocked_response ev response response_string =
     (if startswith response_string (''event: message'' @ crlf @ ''data: '')
      then (case json_loads ev (drop 22 response_string) of
              None \<Rightarrow> internal JSONDecodeError
            | Some response_data \<Rightarrow>
                (case subscript response_data ''id'' of
                   Inl e \<Rightarrow> internal e
                 | Inr ident \<Rightarrow>
                     Inr (safe_response ev response ident
                            ''Tool response blocked: prompt injection detected.'')))
      else (case read_local ''response_data'' None of
              Inl e \<Rightarrow> internal e
            | Inr response_data \<Rightarrow>
                (case subscript response_data ''id'' of
                   Inl e \<Rightarrow> internal e
                 | Inr ident \<Rightarrow>
                     Inr (safe_response ev response ident
                            ''Message was not in expected format. Blocked.''))))"

text \<open>Lines 322 to 326: the sanitized arguments are bound to the local \<open>tool_args\<close>.\<close>

definition sanitize_step :: "SecurityConfig \<Rightarrow> json \<Rightarrow> py_exc + json" where
  "sanitize_step cfg tool_args =
     (if input_sanitization_enabled cfg
      then (case tool_args of
              JObject args \<Rightarrow>
                (let sanitized_args = JObject (sanitize_input cfg args)
                 in Inr (if sanitized_args \<noteq> tool_args then sanitized_args else tool_args))
            | _ \<Rightarrow> Inl AttributeError)
      else Inr tool_args)"

definition track_usage :: "string \<Rightarrow> (string \<rightharpoonup> int) \<Rightarrow> (string \<rightharpoonup> int)" where
  "track_usage tool_name counts =
     counts(tool_name \<mapsto> (case counts tool_name of None \<Rightarrow> 0 | Some n \<Rightarrow> n) + 1)"

text \<open>
  \<open>handle_tool_call\<close> from the security checks on (lines 311 to 431), for a tool name
  that is a string. The result is the response or failure, the proxy state afterwards and
  the upstream calls made.
\<close>

definition gated_call ::
  "env \<Rightarrow> MCPProxyMiddleware \<Rightarrow> string option \<Rightarrow> http_request \<Rightarrow> real \<Rightarrow> real
     \<Rightarrow> string \<Rightarrow> json
     \<Rightarrow> (failure + http_response) \<times> MCPProxyMiddleware \<times> upstream_request list" where
  "gated_call ev px path request now created tool_name tool_args =
     (if \<not> is_tool_allowed (security_config px) tool_name
      then (Inl (HTTPException 403 (Message (''Tool '' @ quoted tool_name @ '' is not allowed''))),
            px, [])
      else
        (let (ok, cfg') = check_rate_limit (float_sub ev) now created tool_name
                           (security_config px);
             px' = px\<lparr>security_config := cfg'\<rparr>
         in if \<not> ok
            then (Inl (HTTPException 429
                        (Message (''Rate limit exceeded for tool '' @ quoted tool_name))),
                  px', [])
            else
              (case sanitize_step cfg' tool_args of
                 Inl e \<Rightarrow> (internal e, px', [])
               | Inr tool_args' \<Rightarrow>
                   (let up = forwarded px' path request
                    in case client_request ev up of
                         None \<Rightarrow> (internal TransportError, px', [up])
                       | Some response \<Rightarrow>
                           (case bytes_decode ev (content response) of
                              None \<Rightarrow> (internal UnicodeDecodeError, px', [up])
                            | Some response_string \<Rightarrow>
                                (case sanitizer_check ev response_string of
                                   None \<Rightarrow> (internal (NameError ''rule_result''), px', [up])
                                 | Some is_injection \<Rightarrow>
                                     if is_injection
                                     then (blocked_response ev response response_string,
                                           px', [up])
                                     else (Inr \<lparr>content = content response,
                                                 status_code = status_code response,
                                                 headers = pop_location (headers response)\<rparr>,
                                           px'\<lparr>tool_usage_counts :=
                                                 track_usage tool_name (tool_usage_counts px')\<rparr>,
                                           [up])))))))"

text \<open>
  \<open>handle_tool_call\<close>. \<open>is_tool_allowed\<close> and \<open>check_rate_limit\<close> take a \<open>str\<close>, and the
  policy sets and dictionaries are keyed by \<open>str\<close>: the embedding covers the calls whose
  \<open>name\<close> is a JSON string. For any other \<open>name\<close> it gives the \<open>TypeError\<close> that the
  source raises for a list or a dict (they are unhashable); the source goes on with a
  \<open>name\<close> that is absent, null, a number or a boolean, which no statement below is about.
\<close>

definition handle_tool_call ::
  "env \<Rightarrow> MCPProxyMiddleware \<Rightarrow> string option \<Rightarrow> http_request \<Rightarrow> real \<Rightarrow> real
     \<Rightarrow> (failure + http_response) \<times> MCPProxyMiddleware \<times> upstream_request list" where
  "handle_tool_call ev px path request now created =
     (case req_json request of
        None \<Rightarrow> (internal JSONDecodeError, px, [])
      | Some data \<Rightarrow>
          (case py_get data ''params'' JNull of
             Inl e \<Rightarrow> (internal e, px, [])
           | Inr params \<Rightarrow>
               (case py_get params ''name'' JNull of
                  Inl e \<Rightarrow> (internal e, px, [])
                | Inr name \<Rightarrow>
                    (case py_get params ''arguments'' (JObject []) of
                       Inl e \<Rightarrow> (internal e, px, [])
                     | Inr tool_args \<Rightarrow>
                         if \<not> session px
                         then (Inl (HTTPException 503
                                     (Message ''Not connected to target server'')), px, [])
                         else (case name of
                                 JString tool_name \<Rightarrow>
                                   gated_call ev px path request now created tool_name tool_args
                               | _ \<Rightarrow> (internal TypeError, px, []))))))"

section \<open>Request dispatcher\<close>

definition stateless ::
  "MCPProxyMiddleware \<Rightarrow> (failure + http_response) \<times> upstream_request list
     \<Rightarrow> (failure + http_response) \<times> MCPProxyMiddleware \<times> upstream_request list" where
  "stateless px r = (fst r, px, snd r)"

definition parse_and_direct_mcp_request ::
  "env \<Rightarrow> MCPProxyMiddleware \<Rightarrow> string \<Rightarrow> http_request \<Rightarrow> real \<Rightarrow> real
     \<Rightarrow> (failure + http_response) \<times> MCPProxyMiddleware \<times> upstream_request list" where
  "parse_and_direct_mcp_request ev px path request now created =
     (case req_json request of
        None \<Rightarrow> (Inl (Unhandled JSONDecodeError), px, [])
      | Some body \<Rightarrow>
          (case py_get body ''method'' JNull of
             Inl e \<Rightarrow> (Inl (Unhandled e), px, [])
           | Inr method \<Rightarrow>
               if method = JString ''initialize''
               then stateless px (handle_mcp_request ev px None request)
               else if method = JString ''tools/list''
               then stateless px (updated_handle_tools_list ev px None request)
               else if method = JString ''tools/call''
               then handle_tool_call ev px None request now created
               else stateless px (handle_mcp_request ev px (Some path) request)))"

section \<open>Stand-ins for the collaborators\<close>

text \<open>
  An environment built from tables, as a unit test would mock the collaborators:
  \<open>json.loads\<close> and \<open>json.dumps\<close> by lookup, bytes and text identified, a detector with
  a fixed verdict and an upstream server with a fixed reply. The subtraction is exact, as
  that of doubles is on the whole-number clock readings used below.
\<close>

definition stub_env ::
  "(string \<times> json) list \<Rightarrow> (json \<times> string) list \<Rightarrow> bool \<Rightarrow> http_response option \<Rightarrow> env" where
  "stub_env parses prints verdict reply =
     \<lparr>json_loads = map_of parses,
      json_dumps = (\<lambda>v. case map_of prints v of None \<Rightarrow> ''null'' | Some s \<Rightarrow> s),
      bytes_decode = Some,
      str_encode = (\<lambda>s. s),
      sanitizer_check = (\<lambda>text. Some verdict),
      client_request = (\<lambda>up. reply),
      float_sub = (\<lambda>a b. a - b)\<rparr>"

definition stub_proxy :: "SecurityConfig \<Rightarrow> MCPProxyMiddleware" where
  "stub_proxy cfg =
     \<lparr>target_server_url = ''http://localhost:8123/mcp'', security_config = cfg,
      session = True, tool_usage_counts = Map.empty\<rparr>"

text \<open>A policy in which the tool \<open>echo\<close> has a cap of three calls per minute.\<close>

definition three_per_minute :: SecurityConfig where
  "three_per_minute = init_security_config\<lparr>rate_limits :=
      [''echo'' \<mapsto> \<lparr>calls_per_minute = 3, last_reset = 1000, call_count = 0\<rparr>]\<rparr>"

text \<open>A \<open>tools/call\<close> request for a tool, with its parsed body and its raw body.\<close>

definition call_request :: "string \<Rightarrow> json \<Rightarrow> string \<Rightarrow> http_request" where
  "call_request tool_name args raw =
     \<lparr>req_method = ''POST'', req_headers = [(''content-type'', ''application/json'')],
      req_body = raw,
      req_json = Some (JObject [(''jsonrpc'', JString ''2.0''), (''id'', JInt 1),
                                (''method'', JString ''tools/call''),
                                (''params'', JObject [(''name'', JString tool_name),
                                                     (''arguments'', args)])])\<rparr>"

text \<open>Any other request, and an upstream reply with status 200.\<close>

definition plain_request :: "string \<Rightarrow> json option \<Rightarrow> http_request" where
  "plain_request raw parsed =
     \<lparr>req_method = ''POST'', req_headers = [(''content-type'', ''application/json'')],
      req_body = raw, req_json = parsed\<rparr>"

definition reply_with :: "string \<Rightarrow> http_response" where
  "reply_with body = \<lparr>content = body, status_code = 200, headers = [(''location'', ''/x'')]\<rparr>"


text \<open>
  A tool listing: the JSON-RPC result for the tools of the given names, the text of two
  such listings, and the frame in which the upstream server sends one.
\<close>

definition named_tool :: "string \<Rightarrow> json" where
  "named_tool n = JObject [(''name'', JString n)]"

definition listing :: "string list \<Rightarrow> json" where
  "listing names =
     JObject [(''jsonrpc'', JString ''2.0''), (''id'', JInt 1),
              (''result'', JObject [(''tools'', JArray (map named_tool names))])]"

definition listing_ABC_text :: string where
  \<open>listing_ABC_text =
     ''{"jsonrpc": "2.0", "id": 1, "result": {"tools": [{"name": "A"}, {"name": "B"}, {"name": "C"}]}}''\<close>

definition listing_AC_text :: string where
  \<open>listing_AC_text =
     ''{"jsonrpc": "2.0", "id": 1, "result": {"tools": [{"name": "A"}, {"name": "C"}]}}''\<close>

definition upstream_frame :: "string \<Rightarrow> string" where
  "upstream_frame j = ''event: message'' @ crlf @ ''data: '' @ j @ crlf @ crlf"

text \<open>
  An upstream server that answers with the listing of A, B and C, and a policy that
  blocks B and has A alone in the allowed set.
\<close>

definition listing_env :: env where
  "listing_env =
     stub_env [(listing_ABC_text, listing [''A'', ''B'', ''C''])]
              [(listing [''A'', ''B'', ''C''], listing_ABC_text),
               (listing [''A'', ''C''], listing_AC_text)]
              False
              (Some \<lparr>content = upstream_frame listing_ABC_text, status_code = 200, headers = []\<rparr>)"

definition listing_policy :: SecurityConfig where
  "listing_policy = init_security_config\<lparr>blocked_tools := {''B''}, allowed_tools := {''A''}\<rparr>"

text \<open>The raw body of a call whose argument matches the pattern \<open>os\.system\<close>.\<close>

definition dangerous_call_text :: string where
  \<open>dangerous_call_text =
     ''{"jsonrpc": "2.0", "id": 1, "method": "tools/call", "params": {"name": "run", "arguments": {"cmd": "os.system('rm -rf /')"}}}''\<close>

section \<open>Notions used in the statements\<close>

text \<open>The name of a listed tool, when it has one that is a string.\<close>

definition tool_name_of :: "json \<Rightarrow> string option" where
  "tool_name_of tool = (case subscript tool ''name'' of Inr (JString n) \<Rightarrow> Some n | _ \<Rightarrow> None)"

text \<open>
  What the codec needs from \<open>json.dumps\<close> and \<open>json.loads\<close> at a JSON value:
  \<open>loads\<close> inverts \<open>dumps\<close> there, and the dumped text is not empty, has no line feed in
  it and does not end in white space.
\<close>

definition json_contract :: "env \<Rightarrow> json \<Rightarrow> bool" where
  "json_contract ev data =
     (json_loads ev (json_dumps ev data) = Some data
      \<and> CHR 0x0A \<notin> set (json_dumps ev data)
      \<and> json_dumps ev data \<noteq> []
      \<and> \<not> isspace (last (json_dumps ev data)))"

text \<open>
  The latest toggle of a tool in a sequence of toggles: \<open>Some True\<close> when it was an
  enable, \<open>Some False\<close> when it was a disable, \<open>None\<close> when the tool was never toggled.
\<close>

definition last_toggle :: "(string \<times> bool) list \<Rightarrow> string \<Rightarrow> bool option" where
  "last_toggle ops t = map_of (rev ops) t"

section \<open>Allow/block decision\<close>

text \<open>
  C5. For every tool name \<open>t\<close> and every policy state, \<open>is_tool_allowed\<close> is false exactly
  when \<open>t\<close> is blocked, or the allowed set is non-empty and does not contain \<open>t\<close>. In
  particular a blocked tool is rejected even when it is also in the allowed set, and an
  empty allowed set permits every tool that is not blocked.
\<close>

theorem is_tool_allowed_iff:
  "(is_tool_allowed cfg t = False \<longleftrightarrow>
       (t \<in> blocked_tools cfg \<or> (allowed_tools cfg \<noteq> {} \<and> t \<notin> allowed_tools cfg)))
   \<and> (t \<in> blocked_tools cfg \<and> t \<in> allowed_tools cfg \<longrightarrow> is_tool_allowed cfg t = False)
   \<and> (allowed_tools cfg = {} \<and> t \<notin> blocked_tools cfg \<longrightarrow> is_tool_allowed cfg t = True)"
  by (simp add: is_tool_allowed_def)

theorem is_tool_allowed_iff_witness:
  "(''a'' \<in> blocked_tools (init_security_config\<lparr>blocked_tools := {''a''}, allowed_tools := {''a''}\<rparr>)
     \<and> ''a'' \<in> allowed_tools (init_security_config\<lparr>blocked_tools := {''a''}, allowed_tools := {''a''}\<rparr>)
     \<and> is_tool_allowed (init_security_config\<lparr>blocked_tools := {''a''}, allowed_tools := {''a''}\<rparr>) ''a'' = False)
   \<and> (allowed_tools init_security_config = {} \<and> ''a'' \<notin> blocked_tools init_security_config
     \<and> is_tool_allowed init_security_config ''a'' = True)"
  using is_tool_allowed_iff [of "init_security_config\<lparr>blocked_tools := {''a''}, allowed_tools := {''a''}\<rparr>" "''a''"]
        is_tool_allowed_iff [of init_security_config "''a''"]
  by (simp add: init_security_config_def)


section \<open>The administrative toggle\<close>

text \<open>Only an enable puts a tool into the allowed set.\<close>

lemma allowed_toggles:
  "allowed_tools (toggles ops cfg) \<subseteq> allowed_tools cfg \<union> {t. (t, True) \<in> set ops}"
proof (induction ops arbitrary: cfg)
  case Nil show ?case by simp
next
  case (Cons p ops)
  obtain t e where p: "p = (t, e)" by (cases p)
  have "allowed_tools (toggle_tool t e cfg) \<subseteq> allowed_tools cfg \<union> {t'. (t', True) \<in> set (p # ops)}"
    by (auto simp: toggle_tool_def p)
  with Cons.IH[of "toggle_tool t e cfg"] show ?case by (auto simp: p)
qed

text \<open>
  After any toggles the allowed set holds the tools whose latest toggle was an enable and
  the tools it held before that were not toggled; likewise the blocked set and the
  disables.
\<close>

lemma last_toggle_Cons:
  "last_toggle ((t, e) # ops) x
     = (case last_toggle ops x of Some v \<Rightarrow> Some v | None \<Rightarrow> if x = t then Some e else None)"
  by (simp add: last_toggle_def map_add_def split: option.splits)

lemma allowed_toggle_tool:
  "allowed_tools (toggle_tool t e cfg)
     = (if e then insert t (allowed_tools cfg) else allowed_tools cfg - {t})"
  by (simp add: toggle_tool_def)

lemma blocked_toggle_tool:
  "blocked_tools (toggle_tool t e cfg)
     = (if e then blocked_tools cfg - {t} else insert t (blocked_tools cfg))"
  by (simp add: toggle_tool_def)

lemma allowed_after_toggles:
  "allowed_tools (toggles ops cfg)
     = {x. last_toggle ops x = Some True} \<union> {x \<in> allowed_tools cfg. last_toggle ops x = None}"
proof (induction ops arbitrary: cfg)
  case Nil show ?case by (simp add: last_toggle_def)
next
  case (Cons p ops)
  obtain t e where p: "p = (t, e)" by (cases p)
  have "x \<in> allowed_tools (toggles (p # ops) cfg)
          \<longleftrightarrow> x \<in> {x. last_toggle (p # ops) x = Some True}
                    \<union> {x \<in> allowed_tools cfg. last_toggle (p # ops) x = None}" for x
    by (cases "last_toggle ops x"; cases e)
       (simp_all add: p Cons.IH last_toggle_Cons allowed_toggle_tool)
  then show ?case by blast
qed

lemma blocked_after_toggles:
  "blocked_tools (toggles ops cfg)
     = {x. last_toggle ops x = Some False} \<union> {x \<in> blocked_tools cfg. last_toggle ops x = None}"
proof (induction ops arbitrary: cfg)
  case Nil show ?case by (simp add: last_toggle_def)
next
  case (Cons p ops)
  obtain t e where p: "p = (t, e)" by (cases p)
  have "x \<in> blocked_tools (toggles (p # ops) cfg)
          \<longleftrightarrow> x \<in> {x. last_toggle (p # ops) x = Some False}
                    \<union> {x \<in> blocked_tools cfg. last_toggle (p # ops) x = None}" for x
    by (cases "last_toggle ops x"; cases e)
       (simp_all add: p Cons.IH last_toggle_Cons blocked_toggle_tool)
  then show ?case by blast
qed

lemma last_toggle_listed:
  assumes "last_toggle ops x = Some v"
  shows "x \<in> set (map fst ops)"
proof -
  have "(x, v) \<in> set (rev ops)"
    using assms unfolding last_toggle_def by (rule map_of_SomeD)
  then have "(x, v) \<in> set ops" by simp
  then have "fst (x, v) \<in> fst ` set ops" by (rule imageI)
  then show ?thesis by simp
qed

text \<open>
  C10 as stated fails: after tool A is enabled and then disabled, the allowed set is empty
  again, and tool B, which was never enabled and never blocked, is allowed.
\<close>

theorem first_enable_counterexample:
  "''B'' \<notin> {t. (t, True) \<in> set [(''A'', True), (''A'', False)]}
   \<and> ''B'' \<notin> blocked_tools (toggles [(''A'', True), (''A'', False)] init_security_config)
   \<and> is_tool_allowed (toggles [(''A'', True), (''A'', False)] init_security_config) ''B''"
  by (simp add: init_security_config_def toggle_tool_def is_tool_allowed_def)

text \<open>
  C10, amended. Enabling a tool puts it in the allowed set, which is then non-empty, and
  takes it out of the blocked set, so that the tool itself is allowed. When
  the allowed set was empty before, every other tool is rejected at once, and after any
  further toggles every tool that was never enabled is rejected for as long as the
  allowed set is non-empty. Disabling a tool takes it out of the allowed set and puts it
  in the blocked set. After the first enable and any further toggles the allowed set
  holds exactly the tools whose latest toggle was an enable; once none is left, because
  every enabled tool has been disabled again, a tool is allowed exactly when it is not
  blocked.
\<close>

theorem enable_switches_to_allow_list:
  "t \<in> allowed_tools (toggle_tool t True cfg)
   \<and> allowed_tools (toggle_tool t True cfg) \<noteq> {}
   \<and> (allowed_tools cfg = {} \<and> t' \<noteq> t \<longrightarrow> is_tool_allowed (toggle_tool t True cfg) t' = False)
   \<and> (allowed_tools cfg = {} \<and> allowed_tools (toggles ops (toggle_tool t True cfg)) \<noteq> {}
        \<and> t' \<noteq> t \<and> (t', True) \<notin> set ops
      \<longrightarrow> is_tool_allowed (toggles ops (toggle_tool t True cfg)) t' = False)
   \<and> allowed_tools (toggle_tool t False cfg) = allowed_tools cfg - {t}
   \<and> t \<in> blocked_tools (toggle_tool t False cfg)
   \<and> (allowed_tools cfg = {}
      \<longrightarrow> allowed_tools (toggles ops (toggle_tool t True cfg))
            = {x. last_toggle ((t, True) # ops) x = Some True})
   \<and> (allowed_tools cfg = {}
        \<and> list_all (\<lambda>x. last_toggle ((t, True) # ops) x \<noteq> Some True) (t # map fst ops)
      \<longrightarrow> allowed_tools (toggles ops (toggle_tool t True cfg)) = {}
          \<and> is_tool_allowed (toggles ops (toggle_tool t True cfg)) t'
              = (t' \<notin> blocked_tools (toggles ops (toggle_tool t True cfg))))
   \<and> blocked_tools (toggle_tool t True cfg) = blocked_tools cfg - {t}
   \<and> is_tool_allowed (toggle_tool t True cfg) t = True"
proof (intro conjI impI)
  show "t \<in> allowed_tools (toggle_tool t True cfg)" by (simp add: toggle_tool_def)
  then show "allowed_tools (toggle_tool t True cfg) \<noteq> {}" by blast
  show "blocked_tools (toggle_tool t True cfg) = blocked_tools cfg - {t}"
    by (simp add: toggle_tool_def)
  show "is_tool_allowed (toggle_tool t True cfg) t = True"
    by (simp add: toggle_tool_def is_tool_allowed_def)
  show "allowed_tools (toggle_tool t False cfg) = allowed_tools cfg - {t}"
    by (simp add: toggle_tool_def)
  show "t \<in> blocked_tools (toggle_tool t False cfg)"
    by (simp add: toggle_tool_def)
next
  assume "allowed_tools cfg = {} \<and> t' \<noteq> t"
  then show "is_tool_allowed (toggle_tool t True cfg) t' = False"
    by (simp add: toggle_tool_def is_tool_allowed_def)
next
  assume a: "allowed_tools cfg = {} \<and> allowed_tools (toggles ops (toggle_tool t True cfg)) \<noteq> {}
        \<and> t' \<noteq> t \<and> (t', True) \<notin> set ops"
  have "allowed_tools (toggles ops (toggle_tool t True cfg))
          \<subseteq> allowed_tools (toggle_tool t True cfg) \<union> {x. (x, True) \<in> set ops}"
    by (rule allowed_toggles)
  moreover have "allowed_tools (toggle_tool t True cfg) = {t}"
    using a by (simp add: toggle_tool_def)
  ultimately have "t' \<notin> allowed_tools (toggles ops (toggle_tool t True cfg))"
    using a by auto
  then show "is_tool_allowed (toggles ops (toggle_tool t True cfg)) t' = False"
    using a by (simp add: is_tool_allowed_def)
next
  assume a: "allowed_tools cfg = {}"
  have "allowed_tools (toggles ((t, True) # ops) cfg)
          = {x. last_toggle ((t, True) # ops) x = Some True}
            \<union> {x \<in> allowed_tools cfg. last_toggle ((t, True) # ops) x = None}"
    by (rule allowed_after_toggles)
  then show "allowed_tools (toggles ops (toggle_tool t True cfg))
            = {x. last_toggle ((t, True) # ops) x = Some True}"
    using a by simp
next
  assume a: "allowed_tools cfg = {}
        \<and> list_all (\<lambda>x. last_toggle ((t, True) # ops) x \<noteq> Some True) (t # map fst ops)"
  have "allowed_tools (toggles ((t, True) # ops) cfg)
          = {x. last_toggle ((t, True) # ops) x = Some True}
            \<union> {x \<in> allowed_tools cfg. last_toggle ((t, True) # ops) x = None}"
    by (rule allowed_after_toggles)
  moreover have "{x. last_toggle ((t, True) # ops) x = Some True} = {}"
  proof -
    have "last_toggle ((t, True) # ops) x \<noteq> Some True" for x
    proof
      assume h: "last_toggle ((t, True) # ops) x = Some True"
      then have "x \<in> set (map fst ((t, True) # ops))" by (rule last_toggle_listed)
      then have "x \<in> set (t # map fst ops)" by simp
      with a have "last_toggle ((t, True) # ops) x \<noteq> Some True"
        by (simp only: list_all_iff) blast
      with h show False by simp
    qed
    then show ?thesis by blast
  qed
  ultimately show empty: "allowed_tools (toggles ops (toggle_tool t True cfg)) = {}"
    using a by simp
  show "is_tool_allowed (toggles ops (toggle_tool t True cfg)) t'
              = (t' \<notin> blocked_tools (toggles ops (toggle_tool t True cfg)))"
    using empty by (simp add: is_tool_allowed_def)
qed

theorem enable_switches_to_allow_list_witness:
  "allowed_tools init_security_config = {}
   \<and> allowed_tools (toggles [(''C'', True), (''A'', False)]
         (toggle_tool ''A'' True init_security_config)) = {''C''}
   \<and> ''B'' \<noteq> ''A'' \<and> (''B'', True) \<notin> set [(''C'', True), (''A'', False)]
   \<and> is_tool_allowed (toggle_tool ''A'' True init_security_config) ''B'' = False
   \<and> is_tool_allowed (toggles [(''C'', True), (''A'', False)]
         (toggle_tool ''A'' True init_security_config)) ''B'' = False
   \<and> list_all (\<lambda>x. last_toggle [(''A'', True), (''A'', False)] x \<noteq> Some True) [''A'', ''A'']
   \<and> allowed_tools (toggles [(''A'', False)] (toggle_tool ''A'' True init_security_config)) = {}
   \<and> blocked_tools (toggles [(''A'', False)] (toggle_tool ''A'' True init_security_config))
        = {''A''}
   \<and> is_tool_allowed (toggles [(''A'', False)] (toggle_tool ''A'' True init_security_config))
        ''B'' = True
   \<and> is_tool_allowed (toggles [(''A'', False)] (toggle_tool ''A'' True init_security_config))
        ''A'' = False"
proof -
  note later = enable_switches_to_allow_list
      [where t = "''A''" and cfg = init_security_config and t' = "''B''"
         and ops = "[(''C'', True), (''A'', False)]"]
  note again = enable_switches_to_allow_list
      [where t = "''A''" and cfg = init_security_config and t' = "''B''"
         and ops = "[(''A'', False)]"]
  note again_A = enable_switches_to_allow_list
      [where t = "''A''" and cfg = init_security_config and t' = "''A''"
         and ops = "[(''A'', False)]"]
  have empty: "allowed_tools init_security_config = {}"
    by (simp add: init_security_config_def)
  have only_C: "allowed_tools (toggles [(''C'', True), (''A'', False)]
         (toggle_tool ''A'' True init_security_config)) = {''C''}"
    by (auto simp: init_security_config_def toggle_tool_def)
  have names: "''B'' \<noteq> ''A''" "(''B'', True) \<notin> set [(''C'', True), (''A'', False)]"
    by simp_all
  have at_once: "is_tool_allowed (toggle_tool ''A'' True init_security_config) ''B'' = False"
    using later[THEN conjunct2, THEN conjunct2, THEN conjunct1] empty names(1) by blast
  have still: "is_tool_allowed (toggles [(''C'', True), (''A'', False)]
         (toggle_tool ''A'' True init_security_config)) ''B'' = False"
    using later[THEN conjunct2, THEN conjunct2, THEN conjunct2, THEN conjunct1]
      empty only_C names by simp
  have disabled: "list_all (\<lambda>x. last_toggle [(''A'', True), (''A'', False)] x \<noteq> Some True)
                    (''A'' # map fst [(''A'', False)])"
    by (simp add: last_toggle_def)
  have blocked_A: "blocked_tools (toggles [(''A'', False)]
         (toggle_tool ''A'' True init_security_config)) = {''A''}"
    by (simp add: init_security_config_def toggle_tool_def)
  have none: "allowed_tools (toggles [(''A'', False)]
         (toggle_tool ''A'' True init_security_config)) = {}"
    using again[THEN conjunct2, THEN conjunct2, THEN conjunct2, THEN conjunct2, THEN conjunct2,
               THEN conjunct2, THEN conjunct2, THEN conjunct1] empty disabled by blast
  have B_back: "is_tool_allowed (toggles [(''A'', False)]
         (toggle_tool ''A'' True init_security_config)) ''B''
       = (''B'' \<notin> blocked_tools (toggles [(''A'', False)]
              (toggle_tool ''A'' True init_security_config)))"
    using again[THEN conjunct2, THEN conjunct2, THEN conjunct2, THEN conjunct2, THEN conjunct2,
               THEN conjunct2, THEN conjunct2, THEN conjunct1] empty disabled by blast
  have A_out: "is_tool_allowed (toggles [(''A'', False)]
         (toggle_tool ''A'' True init_security_config)) ''A''
       = (''A'' \<notin> blocked_tools (toggles [(''A'', False)]
              (toggle_tool ''A'' True init_security_config)))"
    using again_A[THEN conjunct2, THEN conjunct2, THEN conjunct2, THEN conjunct2, THEN conjunct2,
               THEN conjunct2, THEN conjunct2, THEN conjunct1] empty disabled by blast
  have B_allowed: "is_tool_allowed (toggles [(''A'', False)]
         (toggle_tool ''A'' True init_security_config)) ''B'' = True"
    unfolding B_back blocked_A by simp
  have A_rejected: "is_tool_allowed (toggles [(''A'', False)]
         (toggle_tool ''A'' True init_security_config)) ''A'' = False"
    unfolding A_out blocked_A by simp
  have disabled': "list_all (\<lambda>x. last_toggle [(''A'', True), (''A'', False)] x \<noteq> Some True)
                    [''A'', ''A'']"
    using disabled by simp
  show ?thesis
    by (intro conjI empty only_C names at_once still disabled' none blocked_A B_allowed
          A_rejected)
qed

section \<open>Rate limit\<close>

lemma rate_limits_item_present:
  "rate_limits cfg tool = Some w \<Longrightarrow> rate_limits_item created cfg tool = w"
  by (simp add: rate_limits_item_def)

text \<open>A check that finds the window not expired only compares and counts.\<close>

lemma check_in_window:
  assumes "rate_limits_item created cfg tool = w" and "sub now (last_reset w) < 60"
  shows "check_rate_limit sub now created tool cfg =
    (if call_count w \<ge> calls_per_minute w
     then (False, cfg\<lparr>rate_limits := (rate_limits cfg)(tool \<mapsto> w)\<rparr>)
     else (True, cfg\<lparr>rate_limits := (rate_limits cfg)
             (tool \<mapsto> w\<lparr>call_count := call_count w + 1\<rparr>)\<rparr>))"
  using assms by (simp add: check_rate_limit_def Let_def)

lemma checks_exhaust:
  assumes "rate_limits cfg tool = Some w"
    and "\<forall>p \<in> set ts. sub (fst p) (last_reset w) < 60"
    and "call_count w \<le> calls_per_minute w"
    and "length ts = Suc (nat (calls_per_minute w - call_count w))"
  shows "fst (check_rate_limits sub ts tool cfg)
           = replicate (nat (calls_per_minute w - call_count w)) True @ [False]"
  using assms
proof (induction ts arbitrary: cfg w)
  case Nil then show ?case by simp
next
  case (Cons p ts)
  obtain now cr where p: "p = (now, cr)" by (cases p)
  have fresh: "sub now (last_reset w) < 60" using Cons.prems(2) by (simp add: p)
  have item: "rate_limits_item cr cfg tool = w"
    using Cons.prems(1) by (rule rate_limits_item_present)
  show ?case
  proof (cases "call_count w = calls_per_minute w")
    case True
    then have "ts = []" using Cons.prems(4) by simp
    moreover have "fst (check_rate_limit sub now cr tool cfg) = False"
      using fresh True by (simp add: check_in_window[OF item])
    ultimately show ?thesis using True by (auto simp: p split: prod.splits)
  next
    case False
    then have lt: "call_count w < calls_per_minute w" using Cons.prems(3) by simp
    let ?w' = "w\<lparr>call_count := call_count w + 1\<rparr>"
    let ?cfg' = "cfg\<lparr>rate_limits := (rate_limits cfg)(tool \<mapsto> ?w')\<rparr>"
    have step: "check_rate_limit sub now cr tool cfg = (True, ?cfg')"
      using fresh lt by (simp add: check_in_window[OF item])
    have n: "nat (calls_per_minute w - call_count w)
               = Suc (nat (calls_per_minute ?w' - call_count ?w'))"
      using lt by simp
    have "fst (check_rate_limits sub ts tool ?cfg')
            = replicate (nat (calls_per_minute ?w' - call_count ?w')) True @ [False]"
    proof (rule Cons.IH)
      show "rate_limits ?cfg' tool = Some ?w'" by simp
      show "\<forall>p\<in>set ts. sub (fst p) (last_reset ?w') < 60" using Cons.prems(2) by simp
      show "call_count ?w' \<le> calls_per_minute ?w'" using lt by simp
      show "length ts = Suc (nat (calls_per_minute ?w' - call_count ?w'))"
        using Cons.prems(4) lt by simp
    qed
    then show ?thesis by (auto simp: p step n split: prod.splits)
  qed
qed

text \<open>
  The same from the first check on, which finds the entry of the tool or creates the
  default one.
\<close>

lemma checks_exhaust_from_first:
  assumes "rate_limits_item created cfg tool = w"
    and "call_count w = 0" and "calls_per_minute w = int C" and "length ts = C"
    and "\<forall>p \<in> set ((now, created) # ts). sub (fst p) (last_reset w) < 60"
  shows "fst (check_rate_limits sub ((now, created) # ts) tool cfg) = replicate C True @ [False]"
proof (cases C)
  case 0
  then have "fst (check_rate_limit sub now created tool cfg) = False"
    using assms by (simp add: check_in_window[OF assms(1)])
  then show ?thesis using 0 assms(4) by (auto split: prod.splits)
next
  case (Suc n)
  let ?w' = "w\<lparr>call_count := call_count w + 1\<rparr>"
  let ?cfg' = "cfg\<lparr>rate_limits := (rate_limits cfg)(tool \<mapsto> ?w')\<rparr>"
  have step: "check_rate_limit sub now created tool cfg = (True, ?cfg')"
    using assms Suc by (simp add: check_in_window[OF assms(1)])
  have "fst (check_rate_limits sub ts tool ?cfg')
            = replicate (nat (calls_per_minute ?w' - call_count ?w')) True @ [False]"
  proof (rule checks_exhaust)
    show "rate_limits ?cfg' tool = Some ?w'" by simp
    show "\<forall>p\<in>set ts. sub (fst p) (last_reset ?w') < 60" using assms(5) by simp
    show "call_count ?w' \<le> calls_per_minute ?w'" using assms(2,3) Suc by simp
    show "length ts = Suc (nat (calls_per_minute ?w' - call_count ?w'))"
      using assms(2,3,4) Suc by simp
  qed
  moreover have "nat (calls_per_minute ?w' - call_count ?w') = n"
    using assms(2,3) Suc by simp
  ultimately show ?thesis using Suc by (auto simp: step split: prod.splits)
qed

text \<open>
  Every entry that \<open>update_rate_limit\<close> writes has a positive cap, as the default has.
\<close>

lemma update_rate_limit_positive:
  assumes "\<forall>w \<in> ran (rate_limits cfg). 0 < calls_per_minute w"
  shows "\<forall>w \<in> ran (rate_limits (snd (update_rate_limit created t r cfg))). 0 < calls_per_minute w"
  using assms
  by (auto simp: update_rate_limit_def rate_limits_item_def Let_def ran_def
           default_rate_limit_def split: option.splits if_splits)

text \<open>
  C4. Let \<open>w\<close> be the window that the check finds for the tool, or the default window
  (cap 60, count 0) that it creates when the tool has none. If \<open>w\<close> has cap \<open>C\<close> and count
  0, then of \<open>C + 1\<close> checks that each compute less than 60 seconds since the window
  start the first \<open>C\<close> succeed and the last fails. A check made 60 seconds or more after
  the window start resets the window (count 0, start \<open>now\<close>) and, the cap being positive,
  succeeds, which leaves the count at 1; here the subtraction of doubles is only taken to
  compute at least 60 for a difference of at least 60, as rounding to nearest does, 60
  being a double. Every successful check leaves the count one above the count it found
  after the reset, in the same step.
\<close>

theorem check_rate_limit_window:
  assumes "rate_limits_item created cfg tool = w"
  shows "(call_count w = 0 \<and> calls_per_minute w = int C \<and> length ts = C
            \<and> (\<forall>p \<in> set ((now, created) # ts). sub (fst p) (last_reset w) < 60)
          \<longrightarrow> fst (check_rate_limits sub ((now, created) # ts) tool cfg)
                = replicate C True @ [False])
       \<and> (now - last_reset w \<ge> 60 \<and> (\<forall>a b. a - b \<ge> 60 \<longrightarrow> sub a b \<ge> 60)
            \<and> 0 < calls_per_minute w
          \<longrightarrow> fst (check_rate_limit sub now created tool cfg) = True
            \<and> rate_limits (snd (check_rate_limit sub now created tool cfg)) tool
                = Some (w\<lparr>call_count := 0 + 1, last_reset := now\<rparr>))
       \<and> (fst (check_rate_limit sub now created tool cfg) = True
          \<longrightarrow> (\<exists>w'. rate_limits (snd (check_rate_limit sub now created tool cfg)) tool = Some w'
                \<and> call_count w'
                    = (if sub now (last_reset w) \<ge> 60 then 0 else call_count w) + 1))"
proof (intro conjI impI)
  assume a: "call_count w = 0 \<and> calls_per_minute w = int C \<and> length ts = C
            \<and> (\<forall>p \<in> set ((now, created) # ts). sub (fst p) (last_reset w) < 60)"
  show "fst (check_rate_limits sub ((now, created) # ts) tool cfg) = replicate C True @ [False]"
    by (rule checks_exhaust_from_first[OF assms]) (use a in blast)+
next
  assume a: "now - last_reset w \<ge> 60 \<and> (\<forall>a b. a - b \<ge> 60 \<longrightarrow> sub a b \<ge> 60)
            \<and> 0 < calls_per_minute w"
  then have expired: "sub now (last_reset w) \<ge> 60" by blast
  show "fst (check_rate_limit sub now created tool cfg) = True"
    using assms a expired by (simp add: check_rate_limit_def Let_def)
  show "rate_limits (snd (check_rate_limit sub now created tool cfg)) tool
                = Some (w\<lparr>call_count := 0 + 1, last_reset := now\<rparr>)"
    using assms a expired by (simp add: check_rate_limit_def Let_def)
next
  assume "fst (check_rate_limit sub now created tool cfg) = True"
  then show "\<exists>w'. rate_limits (snd (check_rate_limit sub now created tool cfg)) tool = Some w'
                \<and> call_count w' = (if sub now (last_reset w) \<ge> 60 then 0 else call_count w) + 1"
    using assms by (auto simp add: check_rate_limit_def Let_def split: if_splits)
qed

theorem check_rate_limit_window_witness:
  "rate_limits_item 1001 three_per_minute ''echo''
      = \<lparr>calls_per_minute = 3, last_reset = 1000, call_count = 0\<rparr>
   \<and> list_all (\<lambda>p. fst p - 1000 < (60 :: real))
         [(1001, 1001), (1002, 1002), (1003, 1003), (1004, 1004 :: real)]
   \<and> fst (check_rate_limits (\<lambda>a b. a - b) [(1001, 1001), (1002, 1002), (1003, 1003), (1004, 1004)]
             ''echo'' three_per_minute) = [True, True, True, False]
   \<and> (1060 :: real) - 1000 \<ge> 60
   \<and> fst (check_rate_limit (\<lambda>a b. a - b) 1060 1060 ''echo'' three_per_minute) = True
   \<and> rate_limits (snd (check_rate_limit (\<lambda>a b. a - b) 1060 1060 ''echo'' three_per_minute)) ''echo''
        = Some \<lparr>calls_per_minute = 3, last_reset = 1060, call_count = 1\<rparr>
   \<and> rate_limits init_security_config ''echo'' = None
   \<and> rate_limits_item 1001 init_security_config ''echo''
        = \<lparr>calls_per_minute = 60, last_reset = 1001, call_count = 0\<rparr>
   \<and> fst (check_rate_limits (\<lambda>a b. a - b) ((1001, 1001) # replicate 60 (1002, 1002))
             ''echo'' init_security_config) = replicate 60 True @ [False]
   \<and> fst (check_rate_limit (\<lambda>a b. a - b) 1001 1001 ''echo'' init_security_config) = True"
  using
    check_rate_limit_window
      [where created = 1001 and cfg = three_per_minute and tool = "''echo''"
         and w = "\<lparr>calls_per_minute = 3, last_reset = 1000, call_count = 0\<rparr>"
         and C = 3 and ts = "[(1002, 1002), (1003, 1003), (1004, 1004)]" and now = 1001
         and sub = "\<lambda>a b. a - b"]
    check_rate_limit_window
      [where created = 1060 and cfg = three_per_minute and tool = "''echo''"
         and w = "\<lparr>calls_per_minute = 3, last_reset = 1000, call_count = 0\<rparr>"
         and now = 1060 and sub = "\<lambda>a b. a - b"]
    check_rate_limit_window
      [where created = 1001 and cfg = init_security_config and tool = "''echo''"
         and w = "\<lparr>calls_per_minute = 60, last_reset = 1001, call_count = 0\<rparr>"
         and C = 60 and ts = "replicate 60 (1002, 1002)" and now = 1001
         and sub = "\<lambda>a b. a - b"]
  by (simp add: three_per_minute_def init_security_config_def rate_limits_item_def
        default_rate_limit_def numeral_3_eq_3 check_rate_limit_def)

section \<open>The tools/call path: early exits and the usage counter\<close>


lemma forwarded_security_config:
  "forwarded (px\<lparr>security_config := c\<rparr>) path request = forwarded px path request"
  by (simp add: forwarded_def target_url_def)




text \<open>
  The handler changes the rate-limit entries through \<open>check_rate_limit\<close> alone: past the
  allow/block check, the configuration it leaves is the one the check returned.
\<close>

lemma gated_call_rate_limits:
  "is_tool_allowed (security_config px) t \<Longrightarrow>
   security_config (fst (snd (gated_call ev px path request now created t args)))
     = snd (check_rate_limit (float_sub ev) now created t (security_config px))"
  by (auto simp: gated_call_def Let_def
           split: prod.splits if_splits sum.splits option.splits)

text \<open>A call that passes the checks and whose response is judged clean is counted.\<close>

lemma gated_call_counts_clean:
  assumes "is_tool_allowed (security_config px) t"
    and "fst (check_rate_limit (float_sub ev) now created t (security_config px))"
    and "sanitize_step (snd (check_rate_limit (float_sub ev) now created t (security_config px))) args = Inr a"
    and "client_request ev (forwarded px path request) = Some response"
    and "bytes_decode ev (content response) = Some s"
    and "sanitizer_check ev s = Some False"
  shows "tool_usage_counts (fst (snd (gated_call ev px path request now created t args)))
           = track_usage t (tool_usage_counts px)"
  using assms
  by (auto simp: gated_call_def Let_def forwarded_security_config split: prod.splits)


lemmas stub_simps =
  handle_tool_call_def gated_call_def stub_env_def stub_proxy_def call_request_def
  is_tool_allowed_def check_rate_limit_def rate_limits_item_def init_security_config_def sanitize_step_def
  sanitize_input_def forwarded_def target_url_def rstrip_char_def internal_def
  blocked_response_def startswith_def crlf_def read_local_def track_usage_def
  pop_location_def reply_with_def quoted_def default_rate_limit_def Let_def


section \<open>Envelope codec\<close>

lemma split_no_sep: "sep \<notin> set s \<Longrightarrow> split sep s = [s]"
  by (induction s) auto

lemma strip_trailing:
  assumes "s \<noteq> []" and "\<not> isspace (hd s)" and "\<not> isspace (last s)"
    and "\<forall>c \<in> set ws. isspace c"
  shows "strip (s @ ws) = s"
proof -
  obtain c cs where s: "s = c # cs" using assms(1) by (cases s) auto
  have front: "dropWhile isspace (s @ ws) = s @ ws"
    using assms(2) by (simp add: s)
  have "rev (s @ ws) = rev ws @ rev s" by simp
  moreover have "dropWhile isspace (rev ws @ rev s) = dropWhile isspace (rev s)"
    by (rule dropWhile_append2) (use assms(4) in auto)
  moreover have "dropWhile isspace (rev s) = rev s"
    using assms(1,3) by (cases "rev s") (auto simp: last_rev hd_rev dest: arg_cong[where f=hd])
  ultimately show ?thesis by (simp add: strip_def front)
qed

lemma frame_lines:
  assumes "CHR 0x0A \<notin> set j"
  shows "split CHR 0x0A (''event: message\<newline>data: '' @ j) = [''event: message'', ''data: '' @ j]"
proof -
  have "split CHR 0x0A (''data: '' @ j) = [''data: '' @ j]"
    by (rule split_no_sep) (use assms in simp)
  then show ?thesis by simp
qed

text \<open>What decodes from a frame is a value that \<open>json.loads\<close> returned.\<close>

lemma decode_frame_loaded:
  "decode_frame ev frame = Inr data \<Longrightarrow> \<exists>s. json_loads ev s = Some data"
  by (auto simp: decode_frame_def Let_def split: option.splits)

text \<open>
  C9. Let the libraries keep their contracts: decoding the bytes that \<open>str.encode\<close> made
  of a text gives the text back, and every value that \<open>json.loads\<close> returns satisfies
  \<open>json_contract\<close>. Then, when a frame decodes to a JSON-RPC object, encoding the object
  and decoding the result again gives the same object; and what is encoded is the
  canonical frame: the event line, a line feed, \<open>data: \<close> and the dumped object, and two
  carriage return and line feed pairs.
\<close>

theorem decode_encode_round_trip:
  assumes "decode_frame ev frame = Inr data"
    and "\<And>s v. json_loads ev s = Some v \<Longrightarrow> json_contract ev v"
    and "\<And>s. bytes_decode ev (str_encode ev s) = Some s"
  shows "decode_frame ev (encode_frame ev data) = Inr data
         \<and> bytes_decode ev (encode_frame ev data)
              = Some (''event: message\<newline>data: '' @ json_dumps ev data @ crlf @ crlf)"
proof -
  let ?j = "json_dumps ev data"
  obtain s where "json_loads ev s = Some data"
    using decode_frame_loaded[OF assms(1)] by blast
  then have "json_contract ev data" by (rule assms(2))
  then have c: "json_loads ev ?j = Some data" "CHR 0x0A \<notin> set ?j" "?j \<noteq> []"
    "\<not> isspace (last ?j)"
    by (simp_all add: json_contract_def)
  have bytes: "bytes_decode ev (encode_frame ev data)
       = Some (''event: message\<newline>data: '' @ ?j @ crlf @ crlf)"
    unfolding encode_frame_def by (rule assms(3))
  have "strip ((''event: message\<newline>data: '' @ ?j) @ (crlf @ crlf))
          = ''event: message\<newline>data: '' @ ?j"
    by (rule strip_trailing) (use c(3,4) in \<open>simp_all add: isspace_def crlf_def\<close>)
  then have "strip (''event: message\<newline>data: '' @ ?j @ crlf @ crlf)
          = ''event: message\<newline>data: '' @ ?j"
    by simp
  then have lines: "split CHR 0x0A (strip (''event: message\<newline>data: '' @ ?j @ crlf @ crlf))
          = [''event: message'', ''data: '' @ ?j]"
    using frame_lines[OF c(2)] by (simp del: append.simps split.simps)
  have line: "find (\<lambda>line. startswith line ''data: '') [''event: message'', ''data: '' @ ?j]
          = Some (''data: '' @ ?j)"
    by (simp add: startswith_def)
  have payload: "drop 6 (''data: '' @ ?j) = ?j"
    by simp
  have "decode_frame ev (encode_frame ev data) = Inr data"
    by (simp only: decode_frame_def bytes lines line payload c(1) Let_def option.case)
  with bytes show ?thesis by simp
qed

lemma decode_listing:
  "decode_frame listing_env (upstream_frame listing_ABC_text) = Inr (listing [''A'', ''B'', ''C''])"
  by (simp add: decode_frame_def listing_env_def stub_env_def upstream_frame_def crlf_def
        listing_ABC_text_def strip_def isspace_def startswith_def)

theorem decode_encode_round_trip_witness:
  "decode_frame listing_env (upstream_frame listing_ABC_text) = Inr (listing [''A'', ''B'', ''C''])
   \<and> json_contract listing_env (listing [''A'', ''B'', ''C''])
   \<and> encode_frame listing_env (listing [''A'', ''B'', ''C''])
        = ''event: message\<newline>data: '' @ listing_ABC_text @ crlf @ crlf
   \<and> decode_frame listing_env (encode_frame listing_env (listing [''A'', ''B'', ''C'']))
        = Inr (listing [''A'', ''B'', ''C''])"
proof -
  have c: "json_contract listing_env (listing [''A'', ''B'', ''C''])"
    by (simp add: json_contract_def listing_env_def stub_env_def listing_ABC_text_def
          isspace_def)
  have loads: "json_contract listing_env v" if "json_loads listing_env s = Some v" for s v
  proof -
    have "v = listing [''A'', ''B'', ''C'']"
      using that by (simp add: listing_env_def stub_env_def split: if_splits)
    with c show ?thesis by simp
  qed
  have bytes: "bytes_decode listing_env (str_encode listing_env s) = Some s" for s
    by (simp add: listing_env_def stub_env_def)
  have e: "encode_frame listing_env (listing [''A'', ''B'', ''C''])
        = ''event: message\<newline>data: '' @ listing_ABC_text @ crlf @ crlf"
    by (simp add: listing_env_def stub_env_def encode_frame_def)
  show ?thesis
    using decode_encode_round_trip [OF decode_listing loads bytes] decode_listing c e by simp
qed

section \<open>The tools/list path\<close>

lemma filter_tools_named:
  assumes "\<forall>t \<in> set tools. tool_name_of t \<noteq> None"
  shows "filter_tools blocked tools = Inr [t \<leftarrow> tools. tool_name_of t \<notin> Some ` blocked]"
  using assms
proof (induction tools)
  case Nil show ?case by simp
next
  case (Cons tool tools)
  then obtain n where n: "subscript tool ''name'' = Inr (JString n)"
    by (auto simp: tool_name_of_def split: sum.splits json.splits)
  have "filter_tools blocked tools = Inr [t \<leftarrow> tools. tool_name_of t \<notin> Some ` blocked]"
    using Cons by simp
  then show ?case by (auto simp: n tool_name_of_def)
qed

lemma filter_listed_tools_allowed:
  "filter_listed_tools (cfg\<lparr>allowed_tools := A\<rparr>) data = filter_listed_tools cfg data"
  by (simp add: filter_listed_tools_def cong: sum.case_cong)

lemma tools_list_ignores_allowed:
  "updated_handle_tools_list ev
      (px\<lparr>security_config := (security_config px)\<lparr>allowed_tools := A\<rparr>\<rparr>) path request
     = updated_handle_tools_list ev px path request"
  by (simp add: updated_handle_tools_list_def filter_listed_tools_allowed forwarded_def
        target_url_def Let_def cong: sum.case_cong option.case_cong)

text \<open>
  C7. When the upstream response to \<open>tools/list\<close> decodes to an object whose
  \<open>result.tools\<close> is a list of tools that all have a name, the response of the proxy is
  the canonical frame of an object whose \<open>result.tools\<close> are exactly the upstream tools
  whose name is not blocked, in their order; and the response is the same whatever the
  allowed set is.
\<close>

theorem tools_list_hides_blocked_only:
  assumes "client_request ev (forwarded px path request) = Some response"
    and "decode_frame ev (content response) = Inr (JObject d)"
    and "map_of d ''result'' = Some (JObject r)"
    and "map_of r ''tools'' = Some (JArray tools)"
    and "\<forall>t \<in> set tools. tool_name_of t \<noteq> None"
  shows "(\<exists>data' result'.
            fst (updated_handle_tools_list ev px path request)
              = Inr \<lparr>content = encode_frame ev data', status_code = status_code response,
                     headers = pop_location (headers response)\<rparr>
            \<and> subscript data' ''result'' = Inr result'
            \<and> subscript result' ''tools''
                = Inr (JArray [t \<leftarrow> tools.
                                 tool_name_of t \<notin> Some ` blocked_tools (security_config px)]))
         \<and> updated_handle_tools_list ev
              (px\<lparr>security_config := (security_config px)\<lparr>allowed_tools := A\<rparr>\<rparr>) path request
             = updated_handle_tools_list ev px path request"
proof -
  let ?kept = "[t \<leftarrow> tools. tool_name_of t \<notin> Some ` blocked_tools (security_config px)]"
  let ?result' = "JObject (AList.update ''tools'' (JArray ?kept) r)"
  let ?data' = "JObject (AList.update ''result'' ?result' d)"
  have f: "filter_listed_tools (security_config px) (JObject d) = Inr ?data'"
    using assms(3,4) filter_tools_named[OF assms(5)]
    by (simp add: filter_listed_tools_def)
  have "fst (updated_handle_tools_list ev px path request)
          = Inr \<lparr>content = encode_frame ev ?data', status_code = status_code response,
                 headers = pop_location (headers response)\<rparr>"
    using assms(1,2) f by (simp add: updated_handle_tools_list_def Let_def)
  moreover have "subscript ?data' ''result'' = Inr ?result'"
    by (simp add: update_conv')
  moreover have "subscript ?result' ''tools'' = Inr (JArray ?kept)"
    by (simp add: update_conv')
  ultimately show ?thesis
    using tools_list_ignores_allowed by blast
qed

lemma map_of_listing:
  "map_of [(''jsonrpc'', JString ''2.0''), (''id'', JInt 1),
           (''result'', JObject [(''tools'', JArray (map named_tool [''A'', ''B'', ''C'']))])]
     ''result'' = Some (JObject [(''tools'', JArray (map named_tool [''A'', ''B'', ''C'']))])"
  by simp

theorem tools_list_hides_blocked_only_witness:
  "client_request listing_env (forwarded (stub_proxy listing_policy) None (plain_request ''{}'' None))
      = Some \<lparr>content = upstream_frame listing_ABC_text, status_code = 200, headers = []\<rparr>
   \<and> decode_frame listing_env (upstream_frame listing_ABC_text) = Inr (listing [''A'', ''B'', ''C''])
   \<and> list_all (\<lambda>t. tool_name_of t \<noteq> None) (map named_tool [''A'', ''B'', ''C''])
   \<and> [t \<leftarrow> map named_tool [''A'', ''B'', ''C''].
         tool_name_of t \<notin> Some ` blocked_tools (security_config (stub_proxy listing_policy))]
        = map named_tool [''A'', ''C'']
   \<and> fst (updated_handle_tools_list listing_env (stub_proxy listing_policy) None
             (plain_request ''{}'' None))
        = Inr \<lparr>content = ''event: message\<newline>data: '' @ listing_AC_text @ crlf @ crlf,
               status_code = 200, headers = []\<rparr>
   \<and> updated_handle_tools_list listing_env
        ((stub_proxy listing_policy)\<lparr>security_config :=
            (security_config (stub_proxy listing_policy))\<lparr>allowed_tools := {}\<rparr>\<rparr>)
        None (plain_request ''{}'' None)
       = updated_handle_tools_list listing_env (stub_proxy listing_policy) None
           (plain_request ''{}'' None)"
proof -
  have r: "client_request listing_env
             (forwarded (stub_proxy listing_policy) None (plain_request ''{}'' None))
      = Some \<lparr>content = upstream_frame listing_ABC_text, status_code = 200, headers = []\<rparr>"
    by (simp add: listing_env_def stub_env_def)
  have d: "decode_frame listing_env
             (content \<lparr>content = upstream_frame listing_ABC_text, status_code = 200, headers = []\<rparr>)
      = Inr (JObject [(''jsonrpc'', JString ''2.0''), (''id'', JInt 1),
           (''result'', JObject [(''tools'', JArray (map named_tool [''A'', ''B'', ''C'']))])])"
    using decode_listing by (simp add: listing_def)
  have t: "map_of [(''tools'', JArray (map named_tool [''A'', ''B'', ''C'']))] ''tools''
             = Some (JArray (map named_tool [''A'', ''B'', ''C'']))"
    by simp
  have n: "\<forall>t \<in> set (map named_tool [''A'', ''B'', ''C'']). tool_name_of t \<noteq> None"
    by (simp add: named_tool_def tool_name_of_def)
  have k: "[t \<leftarrow> map named_tool [''A'', ''B'', ''C''].
         tool_name_of t \<notin> Some ` blocked_tools (security_config (stub_proxy listing_policy))]
        = map named_tool [''A'', ''C'']"
    by (simp add: named_tool_def tool_name_of_def stub_proxy_def listing_policy_def
          init_security_config_def)
  have fl: "filter_listed_tools (security_config (stub_proxy listing_policy))
              (listing [''A'', ''B'', ''C'']) = Inr (listing [''A'', ''C''])"
    by (simp add: filter_listed_tools_def listing_def named_tool_def stub_proxy_def
          listing_policy_def init_security_config_def)
  have enc: "encode_frame listing_env (listing [''A'', ''C''])
               = ''event: message\<newline>data: '' @ listing_AC_text @ crlf @ crlf"
    by (simp add: encode_frame_def listing_env_def stub_env_def listing_def named_tool_def)
  have f: "fst (updated_handle_tools_list listing_env (stub_proxy listing_policy) None
             (plain_request ''{}'' None))
        = Inr \<lparr>content = ''event: message\<newline>data: '' @ listing_AC_text @ crlf @ crlf,
               status_code = 200, headers = []\<rparr>"
    by (simp add: updated_handle_tools_list_def r decode_listing fl enc Let_def
          pop_location_def)
  show ?thesis
    using tools_list_hides_blocked_only [OF r d map_of_listing t n, where A = "{}"]
      r decode_listing n k f
    by (simp add: list_all_iff)
qed

section \<open>Request dispatcher\<close>

text \<open>
  C8 as stated fails for a body that is not a JSON object: the dispatcher raises before
  any handler runs and nothing is forwarded, where the generic passthrough would have
  forwarded the raw body.
\<close>

theorem dispatch_non_json_counterexample:
  "parse_and_direct_mcp_request listing_env (stub_proxy listing_policy) ''ping''
        (plain_request ''hello'' None) 0 0
       = (Inl (Unhandled JSONDecodeError), stub_proxy listing_policy, [])
   \<and> parse_and_direct_mcp_request listing_env (stub_proxy listing_policy) ''ping''
        (plain_request ''[]'' (Some (JArray []))) 0 0
       = (Inl (Unhandled AttributeError), stub_proxy listing_policy, [])
   \<and> snd (stateless (stub_proxy listing_policy)
        (handle_mcp_request listing_env (stub_proxy listing_policy) (Some ''ping'')
           (plain_request ''hello'' None)))
       = (stub_proxy listing_policy,
          [\<lparr>up_method = ''POST'', up_url = ''http://localhost:8123/mcp/ping'',
            up_content = ''hello'', up_headers = [(''content-type'', ''application/json'')]\<rparr>])"
  by (simp add: parse_and_direct_mcp_request_def plain_request_def stateless_def
        handle_mcp_request_def listing_env_def stub_env_def stub_proxy_def forwarded_def
        target_url_def rstrip_char_def lstrip_char_def)

text \<open>
  C8, amended. A request whose body parses as a JSON object is classified by the
  top-level \<open>method\<close> alone: \<open>initialize\<close> goes to the generic passthrough,
  \<open>tools/list\<close> to the filtered path, \<open>tools/call\<close> to the gated path, and every other
  object, also one with no \<open>method\<close>, to the generic passthrough. The generic passthrough
  sends the method, the raw body and the headers upstream as they came, and returns the
  upstream content and status.
\<close>

theorem dispatch_by_method:
  assumes "req_json request = Some (JObject kvs)"
  shows "parse_and_direct_mcp_request ev px path request now created
           = (if map_of kvs ''method'' = Some (JString ''initialize'')
              then stateless px (handle_mcp_request ev px None request)
              else if map_of kvs ''method'' = Some (JString ''tools/list'')
              then stateless px (updated_handle_tools_list ev px None request)
              else if map_of kvs ''method'' = Some (JString ''tools/call'')
              then handle_tool_call ev px None request now created
              else stateless px (handle_mcp_request ev px (Some path) request))
         \<and> snd (handle_mcp_request ev px p request)
              = [\<lparr>up_method = req_method request, up_url = target_url px p,
                  up_content = req_body request, up_headers = req_headers request\<rparr>]
         \<and> (client_request ev (forwarded px p request) = Some response \<longrightarrow>
              fst (handle_mcp_request ev px p request)
                = Inr \<lparr>content = content response, status_code = status_code response,
                       headers = pop_location (headers response)\<rparr>)"
  using assms
  by (auto simp: parse_and_direct_mcp_request_def handle_mcp_request_def forwarded_def Let_def
           split: option.splits)

theorem dispatch_by_method_witness:
  "req_json (plain_request ''{}'' (Some (JObject []))) = Some (JObject [])
   \<and> parse_and_direct_mcp_request listing_env (stub_proxy listing_policy) ''ping''
        (plain_request ''{}'' (Some (JObject []))) 0 0
       = stateless (stub_proxy listing_policy)
           (handle_mcp_request listing_env (stub_proxy listing_policy) (Some ''ping'')
              (plain_request ''{}'' (Some (JObject []))))
   \<and> snd (handle_mcp_request listing_env (stub_proxy listing_policy) (Some ''ping'')
              (plain_request ''{}'' (Some (JObject []))))
       = [\<lparr>up_method = ''POST'', up_url = ''http://localhost:8123/mcp/ping'',
           up_content = ''{}'', up_headers = [(''content-type'', ''application/json'')]\<rparr>]
   \<and> fst (handle_mcp_request listing_env (stub_proxy listing_policy) (Some ''ping'')
              (plain_request ''{}'' (Some (JObject []))))
       = Inr \<lparr>content = upstream_frame listing_ABC_text, status_code = 200, headers = []\<rparr>"
  using dispatch_by_method
    [where request = "plain_request ''{}'' (Some (JObject []))" and kvs = "[]"
       and ev = listing_env and px = "stub_proxy listing_policy" and path = "''ping''"
       and now = 0 and created = 0 and p = "Some ''ping''"
       and response = "\<lparr>content = upstream_frame listing_ABC_text, status_code = 200,
                          headers = []\<rparr>"]
  by (simp add: plain_request_def listing_env_def stub_env_def stub_proxy_def forwarded_def
        target_url_def rstrip_char_def lstrip_char_def pop_location_def)

section \<open>Argument sanitization\<close>

text \<open>The example of the specification, and a nested object and an object in a list.\<close>

lemma sanitize_example:
  "sanitize_input init_security_config [(''cmd'', JString ''os.system('rm -rf /')'')]
     = [(''cmd'', JString ''[BLOCKED]('rm -rf /')'')]"
  by code_simp

lemma sanitize_nested_example:
  "sanitize_input init_security_config
     [(''n'', JInt 3), (''opts'', JObject [(''code'', JString ''EVAL  (x)'')]),
      (''steps'', JArray [JObject [(''sh'', JString ''Shell=True'')], JBool True])]
     = [(''n'', JInt 3), (''opts'', JObject [(''code'', JString ''[BLOCKED]x)'')]),
        (''steps'', JArray [JObject [(''sh'', JString ''[BLOCKED]'')], JBool True])]"
  by code_simp

lemma sanitize_list_keeps_strings:
  "sanitize_list pats (JString s # items) = JString s # sanitize_list pats items"
  "sanitize_list pats (JArray xs # items) = JArray xs # sanitize_list pats items"
  by simp_all

text \<open>
  C2. The code at the failing input: a string that is itself an item of a list, and an
  object inside a list inside a list, come back unchanged although they match the pattern
  \<open>os\.system\<close>.
\<close>

theorem strings_in_arrays_not_sanitized:
  "sanitize_input init_security_config [(''cmds'', JArray [JString ''os.system('rm -rf /')''])]
     = [(''cmds'', JArray [JString ''os.system('rm -rf /')''])]
   \<and> sanitize_input init_security_config
        [(''cmds'', JArray [JArray [JObject [(''cmd'', JString ''os.system('rm -rf /')'')]]])]
     = [(''cmds'', JArray [JArray [JObject [(''cmd'', JString ''os.system('rm -rf /')'')]]])]"
  by (simp add: sanitize_input_def)

lemma sanitize_input_rate_limits:
  "sanitize_input (cfg\<lparr>rate_limits := r\<rparr>) args = sanitize_input cfg args"
  by (simp add: sanitize_input_def)

lemma sanitize_step_rate_limits:
  "sanitize_step (cfg\<lparr>rate_limits := r\<rparr>) args = sanitize_step cfg args"
  by (simp add: sanitize_step_def sanitize_input_rate_limits cong: json.case_cong)

text \<open>Whatever \<open>handle_tool_call\<close> sends upstream carries the raw body of the request.\<close>

lemma sent_body_is_raw:
  "up \<in> set (snd (snd (handle_tool_call ev px path request now created)))
     \<Longrightarrow> up_content up = req_body request"
  by (auto simp: handle_tool_call_def gated_call_def forwarded_def Let_def
           split: option.splits sum.splits json.splits if_splits prod.splits)

text \<open>
  C1. The code at the failing input: the sanitization step replaces the match in the
  argument by the sentinel, and the request sent upstream still carries the raw body with
  the match in it.
\<close>

theorem sanitized_arguments_not_forwarded:
  "sanitize_step init_security_config (JObject [(''cmd'', JString ''os.system('rm -rf /')'')])
     = Inr (JObject [(''cmd'', JString ''[BLOCKED]('rm -rf /')'')])
   \<and> snd (snd (handle_tool_call (stub_env [] [] False (Some (reply_with ''ok'')))
        (stub_proxy init_security_config) None
        (call_request ''run'' (JObject [(''cmd'', JString ''os.system('rm -rf /')'')])
           dangerous_call_text) 1001 1001))
     = [\<lparr>up_method = ''POST'', up_url = ''http://localhost:8123/mcp'',
         up_content = dangerous_call_text,
         up_headers = [(''content-type'', ''application/json'')]\<rparr>]"
proof -
  have enabled_init: "input_sanitization_enabled init_security_config"
    by (simp add: init_security_config_def)
  have s: "sanitize_step init_security_config
             (JObject [(''cmd'', JString ''os.system('rm -rf /')'')])
     = Inr (JObject [(''cmd'', JString ''[BLOCKED]('rm -rf /')'')])"
    by (simp add: sanitize_step_def sanitize_example enabled_init)
  have c: "check_rate_limit (\<lambda>a b. a - b) 1001 1001 ''run'' init_security_config
             = (True, init_security_config\<lparr>rate_limits :=
                  [''run'' \<mapsto> \<lparr>calls_per_minute = 60, last_reset = 1001, call_count = 1\<rparr>]\<rparr>)"
    by (simp add: check_rate_limit_def rate_limits_item_def init_security_config_def
          default_rate_limit_def)
  have s': "sanitize_step (init_security_config\<lparr>rate_limits :=
                  [''run'' \<mapsto> \<lparr>calls_per_minute = 60, last_reset = 1001, call_count = 1\<rparr>]\<rparr>)
             (JObject [(''cmd'', JString ''os.system('rm -rf /')'')])
     = Inr (JObject [(''cmd'', JString ''[BLOCKED]('rm -rf /')'')])"
    using s by (simp only: sanitize_step_rate_limits)
  have "snd (snd (handle_tool_call (stub_env [] [] False (Some (reply_with ''ok'')))
        (stub_proxy init_security_config) None
        (call_request ''run'' (JObject [(''cmd'', JString ''os.system('rm -rf /')'')])
           dangerous_call_text) 1001 1001))
     = [\<lparr>up_method = ''POST'', up_url = ''http://localhost:8123/mcp'',
         up_content = dangerous_call_text,
         up_headers = [(''content-type'', ''application/json'')]\<rparr>]"
    by (simp add: handle_tool_call_def gated_call_def call_request_def stub_proxy_def c s'
          is_tool_allowed_def forwarded_def target_url_def rstrip_char_def stub_env_def
          reply_with_def)
       (simp add: init_security_config_def)
  with s show ?thesis by simp
qed

section \<open>Response filter\<close>

lemma blocked_response_unrecognized:
  "\<not> startswith response_string (''event: message'' @ crlf @ ''data: '')
     \<Longrightarrow> blocked_response ev response response_string
           = Inl (HTTPException 500 (Str_of (UnboundLocalError ''response_data'')))"
  by (simp add: blocked_response_def read_local_def internal_def)

lemma blocked_response_recognized:
  "startswith response_string (''event: message'' @ crlf @ ''data: '')
     \<Longrightarrow> json_loads ev (drop 22 response_string) = Some response_data
     \<Longrightarrow> subscript response_data ''id'' = Inr ident
     \<Longrightarrow> blocked_response ev response response_string
           = Inr (safe_response ev response ident
                    ''Tool response blocked: prompt injection detected.'')"
  by (simp add: blocked_response_def)

text \<open>
  C3. The code at the failing input: a response that the detector judges an injection and
  that does not start with the expected prefix, here the canonical frame with a line feed
  after the event line and a body that is no frame at all, ends in the internal error 500
  raised for the unassigned local \<open>response_data\<close>.
\<close>

theorem unrecognized_frame_is_internal_error:
  "fst (handle_tool_call
          (stub_env [] [] True
             (Some (reply_with (''event: message\<newline>data: '' @ listing_ABC_text @ crlf @ crlf))))
          (stub_proxy init_security_config) None (call_request ''run'' (JObject []) ''{}'')
          1001 1001)
     = Inl (HTTPException 500 (Str_of (UnboundLocalError ''response_data'')))
   \<and> fst (handle_tool_call (stub_env [] [] True (Some (reply_with ''hello'')))
          (stub_proxy init_security_config) None (call_request ''run'' (JObject []) ''{}'')
          1001 1001)
     = Inl (HTTPException 500 (Str_of (UnboundLocalError ''response_data'')))"
  by (simp add: stub_simps listing_ABC_text_def)

end
